theory Spec2Isabelle
  imports Complex_Main
begin

section \<open>Data model of \<^verbatim>\<open>src/pipeline.ts\<close>\<close>

text \<open>
  The pipeline \<^verbatim>\<open>processRecording\<close> is one asynchronous function that talks to a
  database, an object store, the network, the file system and ffmpeg. It is embedded as
  a function from the answers of those collaborators (the record \<open>env\<close>) and the
  options of the invocation to the ordered list of external calls it makes (the trace)
  and its outcome: the returned key, or the value it throws. \<^verbatim>\<open>getSupabase\<close>, whose file
  is not among the sources, is taken to return the client; logging to the console is
  left out.
\<close>

datatype ProcessingStep =
  downloading | stitching | polishing | mixing_music | encoding | uploading

record ProcessOptions =
  sessionId :: string
  storyTitle :: string
  readerName :: "string option"
  musicTrack :: "string option"
  purchaseId :: string

text \<open>The columns of a \<^verbatim>\<open>purchases\<close> row that the pipeline writes.\<close>

datatype status = completed | failed

record purchase =
  processing_step :: "ProcessingStep option"
  processing_status :: "status option"
  error_message :: "string option"
  final_audio_url :: "string option"

text \<open>One row of the \<^verbatim>\<open>recording_pages\<close> select.\<close>

record recording_page =
  page_index :: int
  audio_url :: "string option"
  duration_seconds :: "real option"

text \<open>
  A thrown JavaScript value: an \<^verbatim>\<open>Error\<close> with its message, or any other value
  (the handler tests \<^verbatim>\<open>error instanceof Error\<close>).
\<close>

datatype js_exn = JsError string | NonError

type_synonym bytes = "nat list"

datatype file_content = Bytes bytes | Text string

text \<open>The fluent-ffmpeg command, as the builder calls of the source fill it in.\<close>

record ffmpeg_command =
  cmd_inputs :: "string list"
  cmd_inputFormat :: "string option"
  cmd_inputOptions :: "string list"
  cmd_duration :: "real option"
  cmd_audioFilters :: "string list"
  cmd_complexFilter :: "string list"
  cmd_audioBitrate :: "string option"
  cmd_audioChannels :: "nat option"
  cmd_audioFrequency :: "nat option"
  cmd_format :: "string option"
  cmd_outputOptions :: "string list"
  cmd_output :: "string option"

definition Ffmpeg :: "string list \<Rightarrow> ffmpeg_command" where
  "Ffmpeg ins = \<lparr> cmd_inputs = ins, cmd_inputFormat = None, cmd_inputOptions = [],
     cmd_duration = None, cmd_audioFilters = [], cmd_complexFilter = [],
     cmd_audioBitrate = None, cmd_audioChannels = None, cmd_audioFrequency = None,
     cmd_format = None, cmd_outputOptions = [], cmd_output = None \<rparr>"

text \<open>The call sites of \<^verbatim>\<open>runFfmpeg\<close> and \<^verbatim>\<open>fs.writeFileSync\<close>, in source order.\<close>

datatype ffmpeg_site = Normalize nat | Silence | Concat | Polish | Mix | Encode

datatype write_site = RawPage nat | ConcatList | Music

text \<open>
  The external calls, in the order the source makes them. \<open>MkdirSync\<close> and \<open>RmSync\<close>
  carry whether the call returned (\<open>True\<close>) or threw; the page loop's calls carry the
  position of the page in the list the select returned.
\<close>

datatype event =
    MkdirSync string bool
  | UpdateStep string ProcessingStep
  | MarkFailed string string
  | MarkCompleted string string
  | SelectPages string
  | CreateSignedUrl nat "string option" nat
  | FetchPage nat string
  | WriteFileSync write_site string file_content
  | RunFfmpeg ffmpeg_site ffmpeg_command
  | FetchMusic string
  | Ffprobe string
  | ReadFileSync string
  | Upload string string bool
  | RmSync string bool

subsection \<open>The answers of the collaborators\<close>

record pages_result =
  pages_data :: "recording_page list option"
  pages_error :: "string option"

record signed_url_result =
  url_data :: "string option"
  url_error :: "string option"

record response =
  ok :: bool
  arrayBuffer :: "js_exn + bytes"

text \<open>
  What each external call answers in one invocation. \<open>None\<close> in a \<open>js_exn option\<close>
  means the call returned, \<open>Some e\<close> that it threw (or the promise rejected with) \<open>e\<close>.
  The supabase client calls resolve to a \<^verbatim>\<open>{ data, error }\<close> object.
  \<open>number_toString\<close> is the runtime's conversion of a number inside a template literal;
  numbers are taken as reals. Every call is taken to settle.
\<close>

record env =
  APP_URL :: "string option"
  number_toString :: "real \<Rightarrow> string"
  mkdirSync_result :: "js_exn option"
  select_pages :: pages_result
  createSignedUrl_result :: "nat \<Rightarrow> signed_url_result"
  fetch_page_result :: "nat \<Rightarrow> js_exn + response"
  writeFileSync_result :: "write_site \<Rightarrow> js_exn option"
  runFfmpeg_result :: "ffmpeg_site \<Rightarrow> js_exn option"
  fetch_music_result :: "js_exn + response"
  ffprobe_result :: "js_exn + real option"
  readFileSync_result :: "js_exn + bytes"
  upload_result :: "string option"
  rmSync_result :: "js_exn option"

section \<open>Sequencing: the trace and the thrown value\<close>

type_synonym 'a act = "event list \<times> (js_exn + 'a)"

definition ret :: "'a \<Rightarrow> 'a act" where
  "ret x = ([], Inr x)"

definition throw :: "js_exn \<Rightarrow> 'a act" where
  "throw e = ([], Inl e)"

text \<open>An external call: it is logged, and the collaborator's answer is its result.\<close>

definition perform :: "event \<Rightarrow> js_exn + 'a \<Rightarrow> 'a act" where
  "perform ev r = ([ev], r)"

definition settle :: "js_exn option \<Rightarrow> js_exn + unit" where
  "settle r = (case r of None \<Rightarrow> Inr () | Some e \<Rightarrow> Inl e)"

text \<open>Statement sequencing: a thrown value skips the rest.\<close>

definition bnd :: "'a act \<Rightarrow> ('a \<Rightarrow> 'b act) \<Rightarrow> 'b act" where
  "bnd m f = (case m of
      (es, Inl e) \<Rightarrow> (es, Inl e)
    | (es, Inr x) \<Rightarrow> (case f x of (es', r) \<Rightarrow> (es @ es', r)))"

text \<open>\<^verbatim>\<open>try { m } catch (error) { h error }\<close>\<close>

definition try_catch :: "'a act \<Rightarrow> (js_exn \<Rightarrow> 'a act) \<Rightarrow> 'a act" where
  "try_catch m h = (case m of
      (es, Inl e) \<Rightarrow> (case h e of (es', r) \<Rightarrow> (es @ es', r))
    | (es, Inr x) \<Rightarrow> (es, Inr x))"

text \<open>\<^verbatim>\<open>try { m } finally { fin }\<close>: a throwing \<open>fin\<close> replaces the outcome of \<open>m\<close>.\<close>

definition try_finally :: "'a act \<Rightarrow> unit act \<Rightarrow> 'a act" where
  "try_finally m fin = (case m of (es, r) \<Rightarrow>
     (case fin of
        (es', Inl e') \<Rightarrow> (es @ es', Inl e')
      | (es', Inr u) \<Rightarrow> (es @ es', r)))"

section \<open>Strings\<close>

text \<open>JavaScript truthiness of an optional string: absent and empty are falsy.\<close>

fun truthy :: "string option \<Rightarrow> bool" where
  "truthy None = False"
| "truthy (Some s) = (s \<noteq> [])"

text \<open>The decimal digit \<open>d\<close>, for \<open>d < 10\<close> (the only use below).\<close>

definition digit_char :: "nat \<Rightarrow> char" where
  "digit_char d = ''0123456789'' ! d"

function show_nat :: "nat \<Rightarrow> string" where
  "show_nat n = (if n < 10 then [digit_char n] else show_nat (n div 10) @ [digit_char (n mod 10)])"
  by pat_completeness auto
termination
  by (relation "measure id") auto

declare show_nat.simps [simp del]

text \<open>An integer inside a template literal: decimal, with a sign when negative.\<close>

definition show_int :: "int \<Rightarrow> string" where
  "show_int i = (if i < 0 then CHR ''-'' # show_nat (nat (- i)) else show_nat (nat i))"

text \<open>
  \<^verbatim>\<open>path.join(dir, name)\<close> for a directory without trailing separator and a plain
  file name; Node's normalisation of dot segments and doubled separators is left out.
\<close>

definition path_join :: "string \<Rightarrow> string \<Rightarrow> string" where
  "path_join dir name = dir @ ''/'' @ name"

text \<open>\<^verbatim>\<open>xs.join("\n")\<close>\<close>

fun join_lines :: "string list \<Rightarrow> string" where
  "join_lines [] = []"
| "join_lines [x] = x"
| "join_lines (x # y # ys) = x @ [CHR 0x0A] @ join_lines (y # ys)"

text \<open>The template \<^verbatim>\<open>file '${p}'\<close> of the concat list.\<close>

definition file_line :: "string \<Rightarrow> string" where
  "file_line p = ''file '' @ [CHR 0x27] @ p @ [CHR 0x27]"

section \<open>The helpers of the source\<close>

definition PAGE_GAP_SECONDS :: real where
  "PAGE_GAP_SECONDS = 75 / 100"

text \<open>
  \<^verbatim>\<open>updateStep\<close>, \<^verbatim>\<open>markFailed\<close> and \<^verbatim>\<open>markCompleted\<close> await one update of the row
  \<^verbatim>\<open>id = purchaseId\<close>; the awaited object is not inspected, so they return.
\<close>

definition updateStep :: "string \<Rightarrow> ProcessingStep \<Rightarrow> unit act" where
  "updateStep pid step = perform (UpdateStep pid step) (Inr ())"

definition markFailed :: "string \<Rightarrow> string \<Rightarrow> unit act" where
  "markFailed pid error = perform (MarkFailed pid error) (Inr ())"

definition markCompleted :: "string \<Rightarrow> string \<Rightarrow> unit act" where
  "markCompleted pid audioPath = perform (MarkCompleted pid audioPath) (Inr ())"

definition runFfmpeg :: "env \<Rightarrow> ffmpeg_site \<Rightarrow> ffmpeg_command \<Rightarrow> unit act" where
  "runFfmpeg env site command =
     perform (RunFfmpeg site command) (settle (runFfmpeg_result env site))"

text \<open>\<^verbatim>\<open>resolve(metadata.format.duration || 0)\<close>\<close>

definition getAudioDuration :: "env \<Rightarrow> string \<Rightarrow> real act" where
  "getAudioDuration env filePath = perform (Ffprobe filePath)
     (case ffprobe_result env of
        Inl err \<Rightarrow> Inl err
      | Inr duration \<Rightarrow> Inr (case duration of None \<Rightarrow> 0 | Some d \<Rightarrow> d))"

definition mkdirSync :: "env \<Rightarrow> string \<Rightarrow> unit act" where
  "mkdirSync env dir =
     perform (MkdirSync dir (mkdirSync_result env = None)) (settle (mkdirSync_result env))"

definition rmSync :: "env \<Rightarrow> string \<Rightarrow> unit act" where
  "rmSync env dir =
     perform (RmSync dir (rmSync_result env = None)) (settle (rmSync_result env))"

definition writeFileSync :: "env \<Rightarrow> write_site \<Rightarrow> string \<Rightarrow> file_content \<Rightarrow> unit act" where
  "writeFileSync env site file content =
     perform (WriteFileSync site file content) (settle (writeFileSync_result env site))"

text \<open>Awaiting a promise that makes no further external call (\<^verbatim>\<open>response.arrayBuffer()\<close>).\<close>

definition await :: "js_exn + 'a \<Rightarrow> 'a act" where
  "await r = ([], r)"

section \<open>Step 1: download the pages and convert them to WAV\<close>

definition page_file :: "string \<Rightarrow> recording_page \<Rightarrow> string \<Rightarrow> string" where
  "page_file tmpDir page ext = path_join tmpDir (''page-'' @ show_int (page_index page) @ ext)"

definition normalize_command :: "string \<Rightarrow> string \<Rightarrow> ffmpeg_command" where
  "normalize_command rawPath wavPath = (Ffmpeg [rawPath])
     \<lparr> cmd_audioChannels := Some 1, cmd_audioFrequency := Some 44100,
       cmd_format := Some ''wav'', cmd_output := Some wavPath \<rparr>"

text \<open>
  The body of \<^verbatim>\<open>for (const page of pages)\<close> for the page at position \<open>k\<close>. The test
  \<^verbatim>\<open>urlError || !signedUrlData?.signedUrl\<close> is the first three branches.
\<close>

definition download_page :: "env \<Rightarrow> string \<Rightarrow> nat \<Rightarrow> recording_page \<Rightarrow> string act" where
  "download_page env tmpDir k page =
     bnd (perform (CreateSignedUrl k (audio_url page) 300) (Inr (createSignedUrl_result env k)))
       (\<lambda>signed.
     case url_data signed of
       None \<Rightarrow> throw (JsError (''Failed to get signed URL for page '' @ show_int (page_index page)))
     | Some signedUrl \<Rightarrow>
     if url_error signed \<noteq> None \<or> signedUrl = []
     then throw (JsError (''Failed to get signed URL for page '' @ show_int (page_index page)))
     else
     bnd (perform (FetchPage k signedUrl) (fetch_page_result env k)) (\<lambda>response.
     if \<not> ok response
     then throw (JsError (''Failed to download page '' @ show_int (page_index page)))
     else
     bnd (await (arrayBuffer response)) (\<lambda>buffer.
     let rawPath = page_file tmpDir page ''.raw'' in
     bnd (writeFileSync env (RawPage k) rawPath (Bytes buffer)) (\<lambda>_.
     let wavPath = page_file tmpDir page ''.wav'' in
     bnd (runFfmpeg env (Normalize k) (normalize_command rawPath wavPath)) (\<lambda>_.
     ret wavPath)))))"

text \<open>The loop over the pages: \<open>wavFiles\<close> is the list pushed to so far.\<close>

fun download_pages ::
  "env \<Rightarrow> string \<Rightarrow> nat \<Rightarrow> recording_page list \<Rightarrow> string list \<Rightarrow> string list act" where
  "download_pages env tmpDir k [] wavFiles = ret wavFiles"
| "download_pages env tmpDir k (page # pages) wavFiles =
     bnd (download_page env tmpDir k page) (\<lambda>wavPath.
     download_pages env tmpDir (Suc k) pages (wavFiles @ [wavPath]))"

text \<open>
  The select and the loop; returns \<^verbatim>\<open>wavFiles\<close>. The test
  \<^verbatim>\<open>pagesError || !pages || pages.length === 0\<close> is the first three branches.
\<close>

definition step1_download :: "env \<Rightarrow> ProcessOptions \<Rightarrow> string \<Rightarrow> string list act" where
  "step1_download env options tmpDir =
     bnd (perform (SelectPages (sessionId options)) (Inr (select_pages env))) (\<lambda>result.
     case pages_data result of
       None \<Rightarrow> throw (JsError ''No recording pages found for session'')
     | Some pages \<Rightarrow>
     if pages_error result \<noteq> None \<or> length pages = 0
     then throw (JsError ''No recording pages found for session'')
     else download_pages env tmpDir 0 pages [])"

section \<open>Step 2: silence and concatenation\<close>

definition silence_command :: "string \<Rightarrow> ffmpeg_command" where
  "silence_command silencePath = (Ffmpeg [''anullsrc=r=44100:cl=mono''])
     \<lparr> cmd_inputFormat := Some ''lavfi'', cmd_duration := Some PAGE_GAP_SECONDS,
       cmd_audioChannels := Some 1, cmd_audioFrequency := Some 44100,
       cmd_format := Some ''wav'', cmd_output := Some silencePath \<rparr>"

text \<open>
  \<^verbatim>\<open>for (let i = 0; i < wavFiles.length; i++)\<close>, with the list pushed to so far. The
  inner test is on JavaScript numbers, so \<open>length - 1\<close> is taken in the integers.
\<close>

function concat_loop :: "string list \<Rightarrow> string \<Rightarrow> nat \<Rightarrow> string list \<Rightarrow> string list" where
  "concat_loop wavFiles silencePath i concatEntries =
     (if i < length wavFiles
      then concat_loop wavFiles silencePath (i + 1)
             (let pushed = concatEntries @ [file_line (wavFiles ! i)]
              in if int i < int (length wavFiles) - 1
                 then pushed @ [file_line silencePath] else pushed)
      else concatEntries)"
  by pat_completeness auto
termination
  by (relation "measure (\<lambda>(wavFiles, silencePath, i, concatEntries). length wavFiles - i)") auto

declare concat_loop.simps [simp del]

definition build_concatEntries :: "string list \<Rightarrow> string \<Rightarrow> string list" where
  "build_concatEntries wavFiles silencePath = concat_loop wavFiles silencePath 0 []"

definition concat_command :: "string \<Rightarrow> string \<Rightarrow> ffmpeg_command" where
  "concat_command concatListPath concatenatedPath = (Ffmpeg [concatListPath])
     \<lparr> cmd_inputOptions := [''-f'', ''concat'', ''-safe'', ''0''],
       cmd_audioChannels := Some 1, cmd_audioFrequency := Some 44100,
       cmd_format := Some ''wav'', cmd_output := Some concatenatedPath \<rparr>"

text \<open>Returns \<^verbatim>\<open>concatenatedPath\<close>.\<close>

definition step2_stitch :: "env \<Rightarrow> string \<Rightarrow> string list \<Rightarrow> string act" where
  "step2_stitch env tmpDir wavFiles =
     (let silencePath = path_join tmpDir ''silence.wav'' in
      bnd (runFfmpeg env Silence (silence_command silencePath)) (\<lambda>_.
      let concatListPath = path_join tmpDir ''concat.txt'' in
      bnd (writeFileSync env ConcatList concatListPath
             (Text (join_lines (build_concatEntries wavFiles silencePath)))) (\<lambda>_.
      let concatenatedPath = path_join tmpDir ''concatenated.wav'' in
      bnd (runFfmpeg env Concat (concat_command concatListPath concatenatedPath)) (\<lambda>_.
      ret concatenatedPath))))"

section \<open>Step 3: high-pass and loudness normalisation\<close>

definition polish_command :: "string \<Rightarrow> string \<Rightarrow> ffmpeg_command" where
  "polish_command concatenatedPath polishedPath = (Ffmpeg [concatenatedPath])
     \<lparr> cmd_audioFilters := [''highpass=f=80'', ''loudnorm=I=-16:TP=-1.5:LRA=11''],
       cmd_audioChannels := Some 1, cmd_audioFrequency := Some 44100,
       cmd_format := Some ''wav'', cmd_output := Some polishedPath \<rparr>"

text \<open>Returns \<^verbatim>\<open>polishedPath\<close>.\<close>

definition step3_polish :: "env \<Rightarrow> string \<Rightarrow> string \<Rightarrow> string act" where
  "step3_polish env tmpDir concatenatedPath =
     (let polishedPath = path_join tmpDir ''polished.wav'' in
      bnd (runFfmpeg env Polish (polish_command concatenatedPath polishedPath)) (\<lambda>_.
      ret polishedPath))"

section \<open>Step 4: background music\<close>

text \<open>An optional string inside a template literal.\<close>

definition template_opt :: "string option \<Rightarrow> string" where
  "template_opt v = (case v of None \<Rightarrow> ''undefined'' | Some s \<Rightarrow> s)"

text \<open>\<^verbatim>\<open>Math.max(0, voiceDuration - 5)\<close>\<close>

definition fadeOutStart :: "real \<Rightarrow> real" where
  "fadeOutStart voiceDuration = max 0 (voiceDuration - 5)"

definition music_filter :: "(real \<Rightarrow> string) \<Rightarrow> real \<Rightarrow> string" where
  "music_filter toString voiceDuration =
     ''[1:a]aloop=loop=-1:size=2e+09,atrim=duration='' @ toString voiceDuration @
     '',afade=t=in:st=0:d=3,afade=t=out:st='' @ toString (fadeOutStart voiceDuration) @
     '':d=5,volume=0.1[music]''"

definition amix_filter :: string where
  "amix_filter = ''[0:a][music]amix=inputs=2:duration=first:dropout_transition=2[out]''"

definition mix_command :: "(real \<Rightarrow> string) \<Rightarrow> string \<Rightarrow> string \<Rightarrow> real \<Rightarrow> string \<Rightarrow> ffmpeg_command" where
  "mix_command toString polishedPath musicPath voiceDuration mixedPath =
     (Ffmpeg [polishedPath, musicPath])
     \<lparr> cmd_complexFilter := [music_filter toString voiceDuration, amix_filter],
       cmd_outputOptions := [''-map'', ''[out]''],
       cmd_audioChannels := Some 1, cmd_audioFrequency := Some 44100,
       cmd_format := Some ''wav'', cmd_output := Some mixedPath \<rparr>"

text \<open>
  The statements inside \<^verbatim>\<open>if (musicTrack)\<close> after the step write; returns the new
  \<^verbatim>\<open>inputForEncode\<close>.
\<close>

definition step4_mix :: "env \<Rightarrow> ProcessOptions \<Rightarrow> string \<Rightarrow> string \<Rightarrow> string act" where
  "step4_mix env options tmpDir polishedPath =
     (let musicUrl = template_opt (APP_URL env) @ ''/music/'' @
                     template_opt (musicTrack options) @ ''.mp3'' in
      bnd (perform (FetchMusic musicUrl) (fetch_music_result env)) (\<lambda>musicResponse.
      if ok musicResponse then
        bnd (await (arrayBuffer musicResponse)) (\<lambda>musicBuffer.
        let musicPath = path_join tmpDir ''music.mp3'' in
        bnd (writeFileSync env Music musicPath (Bytes musicBuffer)) (\<lambda>_.
        bnd (getAudioDuration env polishedPath) (\<lambda>voiceDuration.
        let mixedPath = path_join tmpDir ''mixed.wav'' in
        bnd (runFfmpeg env Mix
               (mix_command (number_toString env) polishedPath musicPath voiceDuration mixedPath))
          (\<lambda>_.
        ret mixedPath))))
      else ret polishedPath))"

section \<open>Step 5: encode to MP3\<close>

definition metadata_options :: "ProcessOptions \<Rightarrow> string list" where
  "metadata_options options =
     [''-metadata'', ''title='' @ storyTitle options, ''-metadata'', ''album=VoiceHearth''] @
     (if truthy (readerName options)
      then [''-metadata'', ''artist=Read by '' @ template_opt (readerName options)] else [])"

definition encode_command :: "ProcessOptions \<Rightarrow> string \<Rightarrow> string \<Rightarrow> ffmpeg_command" where
  "encode_command options inputForEncode mp3Path = (Ffmpeg [inputForEncode])
     \<lparr> cmd_audioBitrate := Some ''192k'', cmd_audioChannels := Some 1,
       cmd_audioFrequency := Some 44100, cmd_format := Some ''mp3'',
       cmd_outputOptions := metadata_options options, cmd_output := Some mp3Path \<rparr>"

text \<open>Returns \<^verbatim>\<open>mp3Path\<close>.\<close>

definition step5_encode :: "env \<Rightarrow> ProcessOptions \<Rightarrow> string \<Rightarrow> string \<Rightarrow> string act" where
  "step5_encode env options tmpDir inputForEncode =
     (let mp3Path = path_join tmpDir ''output.mp3'' in
      bnd (runFfmpeg env Encode (encode_command options inputForEncode mp3Path)) (\<lambda>_.
      ret mp3Path))"

section \<open>Step 6: upload and completion\<close>

text \<open>
  The upload with \<^verbatim>\<open>upsert: true\<close> and the test of its error; returns
  \<^verbatim>\<open>outputStoragePath\<close>.
\<close>

definition step6_upload :: "env \<Rightarrow> ProcessOptions \<Rightarrow> string \<Rightarrow> string act" where
  "step6_upload env options mp3Path =
     (let outputStoragePath = ''processed/'' @ sessionId options @ ''.mp3'' in
      bnd (perform (ReadFileSync mp3Path) (readFileSync_result env)) (\<lambda>mp3Data.
      bnd (perform (Upload outputStoragePath ''audio/mpeg'' True) (Inr (upload_result env)))
        (\<lambda>uploadError.
      case uploadError of
        Some message \<Rightarrow> throw (JsError (''Failed to upload processed MP3: '' @ message))
      | None \<Rightarrow> ret outputStoragePath)))"

section \<open>\<^verbatim>\<open>processRecording\<close>\<close>

text \<open>
  The body of the \<^verbatim>\<open>try\<close> block: the step writes and, between them, the statements
  of each step. The test \<^verbatim>\<open>if (musicTrack)\<close> is truthiness.
\<close>

definition pipeline :: "env \<Rightarrow> ProcessOptions \<Rightarrow> string \<Rightarrow> string act" where
  "pipeline env options tmpDir =
     bnd (mkdirSync env tmpDir) (\<lambda>_.
     bnd (updateStep (purchaseId options) downloading) (\<lambda>_.
     bnd (step1_download env options tmpDir) (\<lambda>wavFiles.
     bnd (updateStep (purchaseId options) stitching) (\<lambda>_.
     bnd (step2_stitch env tmpDir wavFiles) (\<lambda>concatenatedPath.
     bnd (updateStep (purchaseId options) polishing) (\<lambda>_.
     bnd (step3_polish env tmpDir concatenatedPath) (\<lambda>polishedPath.
     bnd (if truthy (musicTrack options)
          then bnd (updateStep (purchaseId options) mixing_music) (\<lambda>_.
               step4_mix env options tmpDir polishedPath)
          else ret polishedPath) (\<lambda>inputForEncode.
     bnd (updateStep (purchaseId options) encoding) (\<lambda>_.
     bnd (step5_encode env options tmpDir inputForEncode) (\<lambda>mp3Path.
     bnd (updateStep (purchaseId options) uploading) (\<lambda>_.
     bnd (step6_upload env options mp3Path) (\<lambda>outputStoragePath.
     bnd (markCompleted (purchaseId options) outputStoragePath) (\<lambda>_.
     ret outputStoragePath)))))))))))))"

text \<open>\<^verbatim>\<open>error instanceof Error ? error.message : "Unknown processing error"\<close>\<close>

definition message_of :: "js_exn \<Rightarrow> string" where
  "message_of error = (case error of JsError m \<Rightarrow> m | NonError \<Rightarrow> ''Unknown processing error'')"

text \<open>\<^verbatim>\<open>const tmpDir = path.join("/tmp", sessionId)\<close>\<close>

definition tmpDir_of :: "ProcessOptions \<Rightarrow> string" where
  "tmpDir_of options = path_join ''/tmp'' (sessionId options)"

definition processRecording :: "env \<Rightarrow> ProcessOptions \<Rightarrow> string act" where
  "processRecording env options =
     (let tmpDir = tmpDir_of options in
      try_finally
        (try_catch (pipeline env options tmpDir)
           (\<lambda>error. bnd (markFailed (purchaseId options) (message_of error)) (\<lambda>_. throw error)))
        (try_catch (rmSync env tmpDir) (\<lambda>_. ret ())))"

section \<open>The state the calls leave behind\<close>

text \<open>
  The \<^verbatim>\<open>purchases\<close> table by row id and the set of directories that exist. Every id
  is taken to have a row and every update to be applied; a status write updates only the
  columns the source names.
\<close>

record world =
  purchases :: "string \<Rightarrow> purchase"
  dirs :: "string set"

fun apply_event :: "event \<Rightarrow> world \<Rightarrow> world" where
  "apply_event (UpdateStep pid step) w =
     w\<lparr> purchases := (purchases w)(pid := (purchases w pid)\<lparr> processing_step := Some step \<rparr>) \<rparr>"
| "apply_event (MarkFailed pid error) w =
     w\<lparr> purchases := (purchases w)(pid := (purchases w pid)
          \<lparr> processing_status := Some failed, error_message := Some error \<rparr>) \<rparr>"
| "apply_event (MarkCompleted pid audioPath) w =
     w\<lparr> purchases := (purchases w)(pid := (purchases w pid)
          \<lparr> processing_status := Some completed, final_audio_url := Some audioPath \<rparr>) \<rparr>"
| "apply_event (MkdirSync dir returned) w =
     (if returned then w\<lparr> dirs := insert dir (dirs w) \<rparr> else w)"
| "apply_event (RmSync dir returned) w =
     (if returned then w\<lparr> dirs := dirs w - {dir} \<rparr> else w)"
| "apply_event _ w = w"

definition world_after :: "world \<Rightarrow> event list \<Rightarrow> world" where
  "world_after w trace = fold apply_event trace w"

text \<open>The steps written to the status record, in order.\<close>

fun steps_of :: "event list \<Rightarrow> ProcessingStep list" where
  "steps_of [] = []"
| "steps_of (UpdateStep pid step # es) = step # steps_of es"
| "steps_of (e # es) = steps_of es"

section \<open>Notions the properties are stated with\<close>

text \<open>The fixed order of the steps.\<close>

fun step_rank :: "ProcessingStep \<Rightarrow> nat" where
  "step_rank downloading = 0"
| "step_rank stitching = 1"
| "step_rank polishing = 2"
| "step_rank mixing_music = 3"
| "step_rank encoding = 4"
| "step_rank uploading = 5"

text \<open>A terminal status write, and: no step is written after one.\<close>

fun terminal_write :: "event \<Rightarrow> bool" where
  "terminal_write (MarkFailed pid error) = True"
| "terminal_write (MarkCompleted pid audioPath) = True"
| "terminal_write _ = False"

fun no_step_after_terminal :: "event list \<Rightarrow> bool" where
  "no_step_after_terminal [] = True"
| "no_step_after_terminal (e # es) =
     ((terminal_write e \<longrightarrow> steps_of es = []) \<and> no_step_after_terminal es)"

text \<open>
  The step an external call belongs to, by its call site in the source: the select, the
  signed URLs, the page fetches, the raw files and the conversions to WAV are under
  ``Step 1'', and so on. Creating and removing the working directory and the status
  writes belong to no step.
\<close>

fun op_stage :: "event \<Rightarrow> ProcessingStep option" where
  "op_stage (SelectPages sid) = Some downloading"
| "op_stage (CreateSignedUrl k a ttl) = Some downloading"
| "op_stage (FetchPage k url) = Some downloading"
| "op_stage (WriteFileSync (RawPage k) file content) = Some downloading"
| "op_stage (RunFfmpeg (Normalize k) command) = Some downloading"
| "op_stage (RunFfmpeg Silence command) = Some stitching"
| "op_stage (WriteFileSync ConcatList file content) = Some stitching"
| "op_stage (RunFfmpeg Concat command) = Some stitching"
| "op_stage (RunFfmpeg Polish command) = Some polishing"
| "op_stage (FetchMusic url) = Some mixing_music"
| "op_stage (WriteFileSync Music file content) = Some mixing_music"
| "op_stage (Ffprobe file) = Some mixing_music"
| "op_stage (RunFfmpeg Mix command) = Some mixing_music"
| "op_stage (RunFfmpeg Encode command) = Some encoding"
| "op_stage (ReadFileSync file) = Some uploading"
| "op_stage (Upload key contentType upsert) = Some uploading"
| "op_stage (MkdirSync dir returned) = None"
| "op_stage (RmSync dir returned) = None"
| "op_stage (UpdateStep pid step) = None"
| "op_stage (MarkFailed pid error) = None"
| "op_stage (MarkCompleted pid audioPath) = None"


text \<open>All calls of a list belong to step \<open>s\<close>.\<close>

definition ops_of :: "ProcessingStep \<Rightarrow> event list \<Rightarrow> bool" where
  "ops_of s es = list_all (\<lambda>e. op_stage e = Some s) es"

fun is_transcode :: "event \<Rightarrow> bool" where
  "is_transcode (RunFfmpeg site command) = True"
| "is_transcode _ = False"

text \<open>
  The thrown value \<open>e\<close> is one a collaborator answered with: the file system, a fetch,
  a response body, ffmpeg or ffprobe.
\<close>

definition raised_by_collaborator :: "env \<Rightarrow> js_exn \<Rightarrow> bool" where
  "raised_by_collaborator env e \<longleftrightarrow>
     mkdirSync_result env = Some e \<or>
     (\<exists>k. fetch_page_result env k = Inl e) \<or>
     (\<exists>k r. fetch_page_result env k = Inr r \<and> arrayBuffer r = Inl e) \<or>
     (\<exists>site. writeFileSync_result env site = Some e) \<or>
     (\<exists>site. runFfmpeg_result env site = Some e) \<or>
     fetch_music_result env = Inl e \<or>
     (\<exists>r. fetch_music_result env = Inr r \<and> arrayBuffer r = Inl e) \<or>
     ffprobe_result env = Inl e \<or>
     readFileSync_result env = Inl e"



text \<open>What \<^verbatim>\<open>getAudioDuration\<close> resolves to, and whether the music fetch answered \<^verbatim>\<open>ok\<close>.\<close>

definition voiceDuration_of :: "env \<Rightarrow> real" where
  "voiceDuration_of env = (case ffprobe_result env of
      Inl err \<Rightarrow> 0 | Inr duration \<Rightarrow> (case duration of None \<Rightarrow> 0 | Some d \<Rightarrow> d))"

definition music_fetched :: "env \<Rightarrow> bool" where
  "music_fetched env = (case fetch_music_result env of Inl err \<Rightarrow> False | Inr r \<Rightarrow> ok r)"


section \<open>The filter graph and the length of its output\<close>

text \<open>
  Modelled from the spec: the transcoding engine that runs a filter graph is not part of
  the repository. Section 4.5 says what its filters do to the length of a track: looping
  makes the music unending, trimming cuts it to the given duration, the fades and the
  volume leave the length alone, and the mix whose duration follows the first input has
  the length of its first input. A track is some seconds long, or unending.
\<close>

datatype track_length = Seconds real | Unending

text \<open>
  The filters the source writes into its graph, as terms; a parameter is written as text
  in the source (\<open>Lit\<close>) or is a number put through the template (\<open>Num\<close>).
\<close>

datatype fade_direction = FadeIn | FadeOut

datatype filter_param = Lit string | Num real

datatype afilter =
    Aloop
  | Atrim real
  | Afade fade_direction filter_param filter_param
  | Volume filter_param

datatype mix_duration = First | Longest | Shortest

record mix_graph =
  music_chain :: "afilter list"
  mix_policy :: mix_duration

text \<open>
  Modelled from the spec: the length of what a filter gives for a track of a given length
  (section 4.5 (a) to (e)); an empty track stays empty under looping.
\<close>

fun filter_length :: "afilter \<Rightarrow> track_length \<Rightarrow> track_length" where
  "filter_length Aloop (Seconds l) = (if 0 < l then Unending else Seconds l)"
| "filter_length Aloop Unending = Unending"
| "filter_length (Atrim d) (Seconds l) = Seconds (min d l)"
| "filter_length (Atrim d) Unending = Seconds d"
| "filter_length (Afade direction start duration) l = l"
| "filter_length (Volume v) l = l"

definition chain_length :: "afilter list \<Rightarrow> track_length \<Rightarrow> track_length" where
  "chain_length chain l = fold filter_length chain l"

text \<open>
  Modelled from the spec: the length of the mix (section 4.5 (f), ``mix duration follows
  first input''). The spec names only that policy, which is the one the source writes;
  the engine's two other policies are given the meaning of their names.
\<close>

fun longer :: "track_length \<Rightarrow> track_length \<Rightarrow> track_length" where
  "longer (Seconds a) (Seconds b) = Seconds (max a b)"
| "longer a b = Unending"

fun shorter :: "track_length \<Rightarrow> track_length \<Rightarrow> track_length" where
  "shorter (Seconds a) (Seconds b) = Seconds (min a b)"
| "shorter Unending b = b"
| "shorter a Unending = a"

fun amix_length :: "mix_duration \<Rightarrow> track_length \<Rightarrow> track_length \<Rightarrow> track_length" where
  "amix_length First first second = first"
| "amix_length Longest first second = longer first second"
| "amix_length Shortest first second = shorter first second"

definition mixed_length :: "mix_graph \<Rightarrow> track_length \<Rightarrow> track_length \<Rightarrow> track_length" where
  "mixed_length graph voice music =
     amix_length (mix_policy graph) voice (chain_length (music_chain graph) music)"

text \<open>The text of a graph, as the engine reads it.\<close>

fun render_param :: "(real \<Rightarrow> string) \<Rightarrow> filter_param \<Rightarrow> string" where
  "render_param toString (Lit s) = s"
| "render_param toString (Num r) = toString r"

fun render_filter :: "(real \<Rightarrow> string) \<Rightarrow> afilter \<Rightarrow> string" where
  "render_filter toString Aloop = ''aloop=loop=-1:size=2e+09''"
| "render_filter toString (Atrim d) = ''atrim=duration='' @ toString d"
| "render_filter toString (Afade direction start duration) =
     ''afade=t='' @ (case direction of FadeIn \<Rightarrow> ''in'' | FadeOut \<Rightarrow> ''out'') @
     '':st='' @ render_param toString start @ '':d='' @ render_param toString duration"
| "render_filter toString (Volume v) = ''volume='' @ render_param toString v"

fun join_commas :: "string list \<Rightarrow> string" where
  "join_commas [] = []"
| "join_commas [x] = x"
| "join_commas (x # y # ys) = x @ '','' @ join_commas (y # ys)"

definition render_graph :: "(real \<Rightarrow> string) \<Rightarrow> mix_graph \<Rightarrow> string list" where
  "render_graph toString graph =
     [''[1:a]'' @ join_commas (map (render_filter toString) (music_chain graph)) @ ''[music]'',
      ''[0:a][music]amix=inputs=2:duration='' @
        (case mix_policy graph of First \<Rightarrow> ''first'' | Longest \<Rightarrow> ''longest''
         | Shortest \<Rightarrow> ''shortest'') @
      '':dropout_transition=2[out]'']"

text \<open>
  The graph of the two template literals of step 4, as terms; \<open>render_mix_graph_of\<close>
  below shows that its text is those literals.
\<close>

definition mix_graph_of :: "real \<Rightarrow> mix_graph" where
  "mix_graph_of voiceDuration = \<lparr>
     music_chain = [Aloop, Atrim voiceDuration, Afade FadeIn (Lit ''0'') (Lit ''3''),
       Afade FadeOut (Num (fadeOutStart voiceDuration)) (Lit ''5''), Volume (Lit ''0.1'')],
     mix_policy = First \<rparr>"

section \<open>Sample invocations\<close>

definition page0 :: recording_page where
  "page0 = \<lparr> page_index = 0, audio_url = Some ''s1/0.webm'', duration_seconds = None \<rparr>"

definition page1 :: recording_page where
  "page1 = \<lparr> page_index = 1, audio_url = Some ''s1/1.webm'', duration_seconds = Some 2 \<rparr>"

text \<open>Every collaborator succeeds; two pages; the polished track is 3 seconds long.\<close>

definition env_ok :: env where
  "env_ok = \<lparr> APP_URL = Some ''http://app'',
     number_toString = (\<lambda>r. if r = 0 then ''0'' else if r = 3 then ''3'' else ''?''),
     mkdirSync_result = None,
     select_pages = \<lparr> pages_data = Some [page0, page1], pages_error = None \<rparr>,
     createSignedUrl_result = (\<lambda>k. \<lparr> url_data = Some ''http://signed'', url_error = None \<rparr>),
     fetch_page_result = (\<lambda>k. Inr \<lparr> ok = True, arrayBuffer = Inr [82, 73] \<rparr>),
     writeFileSync_result = (\<lambda>site. None),
     runFfmpeg_result = (\<lambda>site. None),
     fetch_music_result = Inr \<lparr> ok = True, arrayBuffer = Inr [73, 68, 51] \<rparr>,
     ffprobe_result = Inr (Some 3),
     readFileSync_result = Inr [255, 251],
     upload_result = None,
     rmSync_result = None \<rparr>"

definition opts_plain :: ProcessOptions where
  "opts_plain = \<lparr> sessionId = ''s1'', storyTitle = ''Tale'', readerName = None,
     musicTrack = None, purchaseId = ''p1'' \<rparr>"

definition opts_music :: ProcessOptions where
  "opts_music = \<lparr> sessionId = ''s1'', storyTitle = ''Tale'', readerName = Some ''Ann'',
     musicTrack = Some ''calm'', purchaseId = ''p1'' \<rparr>"

definition fresh_purchase :: purchase where
  "fresh_purchase = \<lparr> processing_step = None, processing_status = None,
     error_message = None, final_audio_url = None \<rparr>"

definition world0 :: world where
  "world0 = \<lparr> purchases = (\<lambda>pid. fresh_purchase), dirs = {} \<rparr>"

text \<open>The music URL answers with an HTTP error status.\<close>

definition env_music_404 :: env where
  "env_music_404 = env_ok \<lparr> fetch_music_result := Inr \<lparr> ok = False, arrayBuffer = Inr [] \<rparr> \<rparr>"

text \<open>The select returns no row; the select returns an error.\<close>

definition env_no_pages :: env where
  "env_no_pages = env_ok \<lparr> select_pages := \<lparr> pages_data = Some [], pages_error = None \<rparr> \<rparr>"

definition env_lookup_error :: env where
  "env_lookup_error =
     env_ok \<lparr> select_pages := \<lparr> pages_data = None, pages_error = Some ''timeout'' \<rparr> \<rparr>"

text \<open>
  The conversion of the first page is rejected with an Error whose message is empty, and
  the removal of the working directory throws.
\<close>

definition env_ffmpeg_and_rm_fail :: env where
  "env_ffmpeg_and_rm_fail = env_ok \<lparr>
     runFfmpeg_result := (\<lambda>site. if site = Normalize 0 then Some (JsError []) else None),
     rmSync_result := Some (JsError ''EBUSY'') \<rparr>"

text \<open>Every page download answers with an HTTP error status.\<close>

definition env_page_fetch_fails :: env where
  "env_page_fetch_fails =
     env_ok \<lparr> fetch_page_result := (\<lambda>k. Inr \<lparr> ok = False, arrayBuffer = Inr [] \<rparr>) \<rparr>"

text \<open>The music fetch rejects, as on a network failure.\<close>

definition env_music_unreachable :: env where
  "env_music_unreachable = env_ok \<lparr> fetch_music_result := Inl (JsError ''fetch failed'') \<rparr>"

section \<open>Lemmas on sequencing and on the steps\<close>

lemma fst_bnd: "fst (bnd m f) = (case snd m of Inl e \<Rightarrow> fst m | Inr x \<Rightarrow> fst m @ fst (f x))"
  by (simp add: bnd_def split: prod.splits sum.splits)

lemma snd_bnd: "snd (bnd m f) = (case snd m of Inl e \<Rightarrow> Inl e | Inr x \<Rightarrow> snd (f x))"
  by (simp add: bnd_def split: prod.splits sum.splits)

lemma fst_try_catch:
  "fst (try_catch m h) = (case snd m of Inl e \<Rightarrow> fst m @ fst (h e) | Inr x \<Rightarrow> fst m)"
  by (simp add: try_catch_def split: prod.splits sum.splits)

lemma snd_try_catch:
  "snd (try_catch m h) = (case snd m of Inl e \<Rightarrow> snd (h e) | Inr x \<Rightarrow> Inr x)"
  by (simp add: try_catch_def split: prod.splits sum.splits)

lemma fst_try_finally: "fst (try_finally m fin) = fst m @ fst fin"
  by (simp add: try_finally_def split: prod.splits sum.splits)

lemma snd_try_finally:
  "snd (try_finally m fin) = (case snd fin of Inl e \<Rightarrow> Inl e | Inr u \<Rightarrow> snd m)"
  by (simp add: try_finally_def split: prod.splits sum.splits)

lemmas act_simps = fst_bnd snd_bnd fst_try_catch snd_try_catch fst_try_finally snd_try_finally
  ret_def throw_def perform_def settle_def await_def
  updateStep_def markFailed_def markCompleted_def runFfmpeg_def getAudioDuration_def
  mkdirSync_def rmSync_def writeFileSync_def

lemmas step_defs = step1_download_def step2_stitch_def step3_polish_def step4_mix_def
  step5_encode_def step6_upload_def download_page_def

text \<open>The trace and the outcome of an invocation, from those of the \<^verbatim>\<open>try\<close> block.\<close>

lemma fst_processRecording:
  "fst (processRecording env opts) =
     fst (pipeline env opts (tmpDir_of opts)) @
     (case snd (pipeline env opts (tmpDir_of opts)) of
        Inl e \<Rightarrow> [MarkFailed (purchaseId opts) (message_of e)]
      | Inr key \<Rightarrow> []) @
     [RmSync (tmpDir_of opts) (rmSync_result env = None)]"
  by (simp add: processRecording_def act_simps Let_def split: option.splits sum.splits)

lemma snd_processRecording:
  "snd (processRecording env opts) = snd (pipeline env opts (tmpDir_of opts))"
  by (simp add: processRecording_def act_simps Let_def split: option.splits sum.splits)

lemma ops_of_Nil [simp]: "ops_of s []"
  by (simp add: ops_of_def)

lemma ops_of_Cons [simp]: "ops_of s (e # es) = (op_stage e = Some s \<and> ops_of s es)"
  by (simp add: ops_of_def)

lemma ops_of_append [simp]: "ops_of s (xs @ ys) = (ops_of s xs \<and> ops_of s ys)"
  by (simp add: ops_of_def)

lemma download_page_ops: "ops_of downloading (fst (download_page env tmpDir k page))"
  by (simp add: download_page_def act_simps Let_def split: option.splits sum.splits)

lemma download_pages_ops:
  "ops_of downloading (fst (download_pages env tmpDir k pages wavFiles))"
  by (induction pages arbitrary: k wavFiles)
     (simp_all add: act_simps download_page_ops split: sum.splits)

lemma step1_ops [simp]: "ops_of downloading (fst (step1_download env options tmpDir))"
  by (simp add: step1_download_def act_simps download_pages_ops split: option.splits sum.splits)

lemma step2_ops [simp]: "ops_of stitching (fst (step2_stitch env tmpDir wavFiles))"
  by (simp add: step2_stitch_def act_simps Let_def split: option.splits sum.splits)

lemma step3_ops [simp]: "ops_of polishing (fst (step3_polish env tmpDir p))"
  by (simp add: step3_polish_def act_simps Let_def split: option.splits sum.splits)

lemma step4_ops [simp]: "ops_of mixing_music (fst (step4_mix env options tmpDir p))"
  by (simp add: step4_mix_def act_simps Let_def split: option.splits sum.splits)

lemma step5_ops [simp]: "ops_of encoding (fst (step5_encode env options tmpDir p))"
  by (simp add: step5_encode_def act_simps Let_def split: option.splits sum.splits)

lemma step6_ops [simp]: "ops_of uploading (fst (step6_upload env options p))"
  by (simp add: step6_upload_def act_simps Let_def split: option.splits sum.splits)

lemma steps_of_append: "steps_of (xs @ ys) = steps_of xs @ steps_of ys"
  by (induction xs rule: steps_of.induct) simp_all

lemma steps_of_ops: "ops_of s es \<Longrightarrow> steps_of es = []"
proof (induction es)
  case (Cons e es)
  then show ?case by (cases e) auto
qed simp

lemmas steps_of_stage =
  steps_of_ops [OF step1_ops] steps_of_ops [OF step2_ops] steps_of_ops [OF step3_ops]
  steps_of_ops [OF step4_ops] steps_of_ops [OF step5_ops] steps_of_ops [OF step6_ops]





lemma steps_of_pipeline_sorted:
  "sorted_wrt (\<lambda>a b. step_rank a < step_rank b) (steps_of (fst (pipeline env opts t)))"
  by (simp add: pipeline_def act_simps steps_of_append steps_of_stage
      split: option.splits sum.splits)

lemma steps_of_pipeline_no_music:
  "\<not> truthy (musicTrack opts) \<Longrightarrow> mixing_music \<notin> set (steps_of (fst (pipeline env opts t)))"
  by (simp add: pipeline_def act_simps steps_of_append steps_of_stage
      split: option.splits sum.splits)

lemma no_step_after_terminal_ops:
  "ops_of s es \<Longrightarrow> no_step_after_terminal (es @ rest) = no_step_after_terminal rest"
proof (induction es)
  case (Cons e es)
  then show ?case by (cases e) auto
qed simp

lemmas no_step_after_terminal_stage =
  no_step_after_terminal_ops [OF step1_ops] no_step_after_terminal_ops [OF step2_ops]
  no_step_after_terminal_ops [OF step3_ops] no_step_after_terminal_ops [OF step4_ops]
  no_step_after_terminal_ops [OF step5_ops] no_step_after_terminal_ops [OF step6_ops]

lemma no_step_after_terminal_pipeline:
  "steps_of rest = [] \<Longrightarrow> no_step_after_terminal rest \<Longrightarrow>
   no_step_after_terminal (fst (pipeline env opts t) @ rest)"
  by (simp add: pipeline_def act_simps no_step_after_terminal_stage
      split: option.splits sum.splits)

lemma steps_of_processRecording:
  "steps_of (fst (processRecording env opts)) = steps_of (fst (pipeline env opts (tmpDir_of opts)))"
  by (simp add: fst_processRecording steps_of_append split: sum.splits)

text \<open>Evaluating an invocation on sample data.\<close>

lemmas eval_simps = processRecording_def pipeline_def step_defs act_simps Let_def
  tmpDir_of_def path_join_def page_file_def show_int_def show_nat.simps digit_char_def
  template_opt_def

lemmas sample_defs = env_ok_def opts_plain_def opts_music_def page0_def page1_def
  env_music_404_def env_no_pages_def env_lookup_error_def world0_def fresh_purchase_def
  env_ffmpeg_and_rm_fail_def env_page_fetch_fails_def env_music_unreachable_def

section \<open>The order of the step writes\<close>

text \<open>
  C4. In every invocation the steps written to the status record are strictly
  increasing in the order downloading, stitching, polishing, mixing_music, encoding,
  uploading (so none is repeated and none goes backward), no step is written after a
  terminal status write, and without a music track (absent, or the empty string, which
  the source's test treats alike) mixing_music is never written.
\<close>

theorem C4_steps_strictly_forward:
  "sorted_wrt (\<lambda>a b. step_rank a < step_rank b) (steps_of (fst (processRecording env opts)))
   \<and> no_step_after_terminal (fst (processRecording env opts))
   \<and> (\<not> truthy (musicTrack opts) \<longrightarrow>
        mixing_music \<notin> set (steps_of (fst (processRecording env opts))))"
proof -
  have "no_step_after_terminal (fst (processRecording env opts))"
    unfolding fst_processRecording
    by (rule no_step_after_terminal_pipeline) (simp_all split: sum.splits)
  then show ?thesis
    by (simp add: steps_of_processRecording steps_of_pipeline_sorted steps_of_pipeline_no_music)
qed

theorem C4_steps_strictly_forward_witness:
  "\<not> truthy (musicTrack opts_plain)
   \<and> steps_of (fst (processRecording env_ok opts_plain)) =
       [downloading, stitching, polishing, encoding, uploading]
   \<and> sorted_wrt (\<lambda>a b. step_rank a < step_rank b)
       (steps_of (fst (processRecording env_ok opts_plain)))
   \<and> no_step_after_terminal (fst (processRecording env_ok opts_plain))
   \<and> mixing_music \<notin> set (steps_of (fst (processRecording env_ok opts_plain)))"
proof -
  have absent: "\<not> truthy (musicTrack opts_plain)"
    by (simp add: opts_plain_def)
  have steps: "steps_of (fst (processRecording env_ok opts_plain)) =
      [downloading, stitching, polishing, encoding, uploading]"
    by (simp add: eval_simps env_ok_def opts_plain_def page0_def page1_def)
  show ?thesis
    using C4_steps_strictly_forward [of env_ok opts_plain] absent steps by simp
qed

section \<open>Each step is written before its calls\<close>


section \<open>The music step is written before the fetch\<close>





section \<open>No pages\<close>

lemma step1_lookup_failed:
  "pages_error (select_pages env) \<noteq> None \<or> pages_data (select_pages env) = None
     \<or> pages_data (select_pages env) = Some [] \<Longrightarrow>
   step1_download env opts t =
     ([SelectPages (sessionId opts)], Inl (JsError ''No recording pages found for session''))"
  by (auto simp add: step1_download_def bnd_def perform_def throw_def split: option.splits)

lemma pipeline_lookup_failed:
  "step1_download env opts t = (ops, Inl e) \<Longrightarrow>
   pipeline env opts t =
     (case mkdirSync_result env of
        None \<Rightarrow> (MkdirSync t True # UpdateStep (purchaseId opts) downloading # ops, Inl e)
      | Some x \<Rightarrow> ([MkdirSync t False], Inl x))"
  by (simp add: pipeline_def bnd_def perform_def mkdirSync_def settle_def updateStep_def
      split: option.splits)

lemma processRecording_failed:
  "pipeline env opts (tmpDir_of opts) = (tr, Inl e) \<Longrightarrow>
   processRecording env opts =
     (tr @ [MarkFailed (purchaseId opts) (message_of e),
            RmSync (tmpDir_of opts) (rmSync_result env = None)], Inl e)"
  by (simp add: processRecording_def Let_def try_catch_def try_finally_def bnd_def perform_def
      markFailed_def throw_def rmSync_def settle_def ret_def split: option.splits)

text \<open>
  C6. When the select returns an empty list of pages, no ffmpeg run is made and no step
  other than downloading is written; and once the working directory has been created,
  the invocation is exactly: the step write, the select, the failure write with the
  message ``No recording pages found for session'', the removal of the directory, and
  the throw of an Error with that message.
\<close>

theorem C6_no_pages_fails_before_transcoding:
  assumes "pages_data (select_pages env) = Some []"
  shows "filter is_transcode (fst (processRecording env opts)) = []
    \<and> (steps_of (fst (processRecording env opts)) = []
       \<or> steps_of (fst (processRecording env opts)) = [downloading])
    \<and> (mkdirSync_result env = None \<longrightarrow>
         processRecording env opts =
           ([MkdirSync (tmpDir_of opts) True, UpdateStep (purchaseId opts) downloading,
             SelectPages (sessionId opts),
             MarkFailed (purchaseId opts) ''No recording pages found for session'',
             RmSync (tmpDir_of opts) (rmSync_result env = None)],
            Inl (JsError ''No recording pages found for session'')))"
proof -
  let ?e = "JsError ''No recording pages found for session''"
  have s: "step1_download env opts t = ([SelectPages (sessionId opts)], Inl ?e)" for t
    using assms by (simp add: step1_lookup_failed)
  show ?thesis
  proof (cases "mkdirSync_result env")
    case None
    then have "pipeline env opts (tmpDir_of opts) =
        ([MkdirSync (tmpDir_of opts) True, UpdateStep (purchaseId opts) downloading,
          SelectPages (sessionId opts)], Inl ?e)"
      by (simp add: pipeline_lookup_failed [OF s])
    from processRecording_failed [OF this] None show ?thesis
      by (simp add: message_of_def)
  next
    case (Some x)
    then have "pipeline env opts (tmpDir_of opts) = ([MkdirSync (tmpDir_of opts) False], Inl x)"
      by (simp add: pipeline_lookup_failed [OF s])
    from processRecording_failed [OF this] Some show ?thesis
      by simp
  qed
qed

theorem C6_no_pages_fails_before_transcoding_witness:
  "pages_data (select_pages env_no_pages) = Some []
   \<and> mkdirSync_result env_no_pages = None
   \<and> processRecording env_no_pages opts_plain =
       ([MkdirSync ''/tmp/s1'' True, UpdateStep ''p1'' downloading, SelectPages ''s1'',
         MarkFailed ''p1'' ''No recording pages found for session'',
         RmSync ''/tmp/s1'' True],
        Inl (JsError ''No recording pages found for session''))"
proof -
  have none: "pages_data (select_pages env_no_pages) = Some []"
    by (simp add: env_no_pages_def)
  have made: "mkdirSync_result env_no_pages = None"
    by (simp add: env_no_pages_def env_ok_def)
  show ?thesis
    using C6_no_pages_fails_before_transcoding [OF none, of opts_plain] none made
    by (simp add: tmpDir_of_def path_join_def opts_plain_def env_no_pages_def env_ok_def)
qed

text \<open>
  C9. When the select returns an error, the invocation makes the same calls and throws
  the same value as when the select returns an empty list without error, so the status
  record is left the same in both; once the working directory has been created, the
  failure message written is ``No recording pages found for session''.
\<close>

theorem C9_lookup_error_same_as_no_pages:
  assumes "pages_error (select_pages env) \<noteq> None"
  shows "processRecording env opts =
      processRecording (env \<lparr> select_pages := \<lparr> pages_data = Some [], pages_error = None \<rparr> \<rparr>) opts
    \<and> world_after w (fst (processRecording env opts)) =
      world_after w (fst (processRecording
        (env \<lparr> select_pages := \<lparr> pages_data = Some [], pages_error = None \<rparr> \<rparr>) opts))
    \<and> (mkdirSync_result env = None \<longrightarrow>
         processRecording env opts =
           ([MkdirSync (tmpDir_of opts) True, UpdateStep (purchaseId opts) downloading,
             SelectPages (sessionId opts),
             MarkFailed (purchaseId opts) ''No recording pages found for session'',
             RmSync (tmpDir_of opts) (rmSync_result env = None)],
            Inl (JsError ''No recording pages found for session'')))"
proof -
  let ?env' = "env \<lparr> select_pages := \<lparr> pages_data = Some [], pages_error = None \<rparr> \<rparr>"
  let ?e = "JsError ''No recording pages found for session''"
  have s: "step1_download env opts t = ([SelectPages (sessionId opts)], Inl ?e)" for t
    using assms by (simp add: step1_lookup_failed)
  have s': "step1_download ?env' opts t = ([SelectPages (sessionId opts)], Inl ?e)" for t
    by (simp add: step1_lookup_failed)
  have p: "pipeline env opts t = pipeline ?env' opts t" for t
    by (simp add: pipeline_lookup_failed [OF s] pipeline_lookup_failed [OF s'])
  have eq: "processRecording env opts = processRecording ?env' opts"
    by (simp add: processRecording_def p rmSync_def)
  have "mkdirSync_result env = None \<Longrightarrow>
      processRecording env opts =
        ([MkdirSync (tmpDir_of opts) True, UpdateStep (purchaseId opts) downloading,
          SelectPages (sessionId opts)] @
         [MarkFailed (purchaseId opts) (message_of ?e),
          RmSync (tmpDir_of opts) (rmSync_result env = None)], Inl ?e)"
    by (rule processRecording_failed) (simp add: pipeline_lookup_failed [OF s])
  then show ?thesis using eq by (simp add: message_of_def)
qed

theorem C9_lookup_error_same_as_no_pages_witness:
  "pages_error (select_pages env_lookup_error) \<noteq> None
   \<and> mkdirSync_result env_lookup_error = None
   \<and> processRecording env_lookup_error opts_plain = processRecording env_no_pages opts_plain
   \<and> snd (processRecording env_lookup_error opts_plain) =
       Inl (JsError ''No recording pages found for session'')"
proof -
  have err: "pages_error (select_pages env_lookup_error) \<noteq> None"
    by (simp add: env_lookup_error_def)
  have made: "mkdirSync_result env_lookup_error = None"
    by (simp add: env_lookup_error_def env_ok_def)
  have same: "env_lookup_error \<lparr> select_pages := \<lparr> pages_data = Some [], pages_error = None \<rparr> \<rparr>
      = env_no_pages"
    by (simp add: env_lookup_error_def env_no_pages_def)
  note c = C9_lookup_error_same_as_no_pages [OF err, of opts_plain world0]
  have eq: "processRecording env_lookup_error opts_plain = processRecording env_no_pages opts_plain"
    using c same by simp
  have thrown: "snd (processRecording env_lookup_error opts_plain) =
      Inl (JsError ''No recording pages found for session'')"
    using c [THEN conjunct2, THEN conjunct2, rule_format, OF made] by simp
  from err made eq thrown show ?thesis by blast
qed

section \<open>Failure and success of an invocation\<close>

lemma world_after_Nil [simp]: "world_after w [] = w"
  by (simp add: world_after_def)

lemma world_after_Cons [simp]: "world_after w (e # es) = world_after (apply_event e w) es"
  by (simp add: world_after_def)

lemma world_after_append [simp]: "world_after w (xs @ ys) = world_after (world_after w xs) ys"
  by (simp add: world_after_def)

lemma world_after_ops: "ops_of s es \<Longrightarrow> world_after w es = w"
proof (induction es arbitrary: w)
  case (Cons e es)
  then show ?case by (cases e) auto
qed simp

lemmas world_after_stage =
  world_after_ops [OF step1_ops] world_after_ops [OF step2_ops] world_after_ops [OF step3_ops]
  world_after_ops [OF step4_ops] world_after_ops [OF step5_ops] world_after_ops [OF step6_ops]

lemma download_page_origin:
  "snd (download_page env tmpDir k page) = Inl e \<Longrightarrow>
   message_of e \<noteq> [] \<or> raised_by_collaborator env e"
  by (auto simp add: download_page_def act_simps Let_def raised_by_collaborator_def message_of_def
      split: option.splits sum.splits if_splits)

lemma download_pages_origin:
  "snd (download_pages env tmpDir k pages wavFiles) = Inl e \<Longrightarrow>
   message_of e \<noteq> [] \<or> raised_by_collaborator env e"
proof (induction pages arbitrary: k wavFiles)
  case Nil
  then show ?case by (simp add: ret_def)
next
  case (Cons page pages)
  then show ?case
    by (auto simp add: snd_bnd split: sum.splits dest: download_page_origin)
qed

lemma step1_origin:
  "snd (step1_download env opts t) = Inl e \<Longrightarrow>
   message_of e \<noteq> [] \<or> raised_by_collaborator env e"
  by (auto simp add: step1_download_def act_simps message_of_def
      split: option.splits sum.splits if_splits dest: download_pages_origin)

lemma step2_origin:
  "snd (step2_stitch env t wavFiles) = Inl e \<Longrightarrow> raised_by_collaborator env e"
  by (auto simp add: step2_stitch_def act_simps Let_def raised_by_collaborator_def
      split: option.splits sum.splits if_splits)

lemma step3_origin:
  "snd (step3_polish env t p) = Inl e \<Longrightarrow> raised_by_collaborator env e"
  by (auto simp add: step3_polish_def act_simps Let_def raised_by_collaborator_def
      split: option.splits sum.splits if_splits)

lemma step4_origin:
  "snd (step4_mix env opts t p) = Inl e \<Longrightarrow> raised_by_collaborator env e"
  by (auto simp add: step4_mix_def act_simps Let_def raised_by_collaborator_def
      split: option.splits sum.splits if_splits)

lemma step5_origin:
  "snd (step5_encode env opts t p) = Inl e \<Longrightarrow> raised_by_collaborator env e"
  by (auto simp add: step5_encode_def act_simps Let_def raised_by_collaborator_def
      split: option.splits sum.splits if_splits)

lemma step6_origin:
  "snd (step6_upload env opts p) = Inl e \<Longrightarrow>
   message_of e \<noteq> [] \<or> raised_by_collaborator env e"
  by (auto simp add: step6_upload_def act_simps Let_def raised_by_collaborator_def message_of_def
      split: option.splits sum.splits if_splits)

lemma mkdir_origin: "mkdirSync_result env = Some e \<Longrightarrow> raised_by_collaborator env e"
  by (simp add: raised_by_collaborator_def)

lemma pipeline_origin:
  "snd (pipeline env opts t) = Inl e \<Longrightarrow>
   message_of e \<noteq> [] \<or> raised_by_collaborator env e"
  by (simp add: pipeline_def act_simps split: option.splits sum.splits if_splits)
     (blast dest: step1_origin step2_origin step3_origin step4_origin step5_origin step6_origin
        intro: mkdir_origin)+

text \<open>
  C1, amended. Whenever an invocation throws \<open>e\<close>, its trace is that of the
  \<^verbatim>\<open>try\<close> block followed by the failure write and then one attempt to remove the working
  directory; the status record is left failed with the message of \<open>e\<close> (or ``Unknown
  processing error'' when \<open>e\<close> is not an Error); that message is empty only if a
  collaborator threw an Error with an empty message; and the working directory does not
  exist afterward whenever the removal returned.
\<close>

theorem C1_failure_recorded_then_cleanup_attempted:
  assumes "snd (processRecording env opts) = Inl e"
  shows "fst (processRecording env opts) =
      fst (pipeline env opts (tmpDir_of opts)) @
      [MarkFailed (purchaseId opts) (message_of e),
       RmSync (tmpDir_of opts) (rmSync_result env = None)]
    \<and> processing_status
        (purchases (world_after w (fst (processRecording env opts))) (purchaseId opts)) = Some failed
    \<and> error_message
        (purchases (world_after w (fst (processRecording env opts))) (purchaseId opts)) =
        Some (message_of e)
    \<and> (message_of e = [] \<longrightarrow> raised_by_collaborator env e)
    \<and> (rmSync_result env = None \<longrightarrow>
        tmpDir_of opts \<notin> dirs (world_after w (fst (processRecording env opts))))"
proof -
  from assms have thrown: "snd (pipeline env opts (tmpDir_of opts)) = Inl e"
    by (simp add: snd_processRecording)
  have tr: "fst (processRecording env opts) =
      fst (pipeline env opts (tmpDir_of opts)) @
      [MarkFailed (purchaseId opts) (message_of e),
       RmSync (tmpDir_of opts) (rmSync_result env = None)]"
    by (simp add: fst_processRecording thrown)
  have origin: "message_of e = [] \<longrightarrow> raised_by_collaborator env e"
    using pipeline_origin [OF thrown] by blast
  show ?thesis
    unfolding tr using origin by simp
qed


text \<open>
  C1, as stated, fails: when ffmpeg rejects with an Error whose message is empty and the
  removal of the working directory throws, the invocation throws, the error message
  written to the status record is empty, and the working directory still exists.
\<close>

theorem C1_counterexample_empty_message_directory_left:
  "snd (processRecording env_ffmpeg_and_rm_fail opts_plain) = Inl (JsError [])
   \<and> error_message (purchases
        (world_after world0 (fst (processRecording env_ffmpeg_and_rm_fail opts_plain))) ''p1'') =
       Some []
   \<and> ''/tmp/s1'' \<in> dirs
        (world_after world0 (fst (processRecording env_ffmpeg_and_rm_fail opts_plain)))"
  by (simp add: eval_simps sample_defs message_of_def)

theorem C1_failure_recorded_then_cleanup_attempted_witness:
  "snd (processRecording env_no_pages opts_plain) =
     Inl (JsError ''No recording pages found for session'')
   \<and> rmSync_result env_no_pages = None
   \<and> processing_status (purchases
        (world_after world0 (fst (processRecording env_no_pages opts_plain))) ''p1'') = Some failed
   \<and> error_message (purchases
        (world_after world0 (fst (processRecording env_no_pages opts_plain))) ''p1'') =
       Some ''No recording pages found for session''
   \<and> ''/tmp/s1'' \<notin> dirs (world_after world0 (fst (processRecording env_no_pages opts_plain)))"
proof -
  have thrown: "snd (processRecording env_no_pages opts_plain) =
      Inl (JsError ''No recording pages found for session'')"
    by (simp add: eval_simps sample_defs)
  have removed: "rmSync_result env_no_pages = None"
    by (simp add: sample_defs)
  show ?thesis
    using C1_failure_recorded_then_cleanup_attempted [OF thrown, of world0] thrown removed
    by (simp add: message_of_def tmpDir_of_def path_join_def opts_plain_def)
qed

lemma step6_result:
  "snd (step6_upload env opts p) = Inr key \<Longrightarrow>
   key = ''processed/'' @ sessionId opts @ ''.mp3''
   \<and> Upload key ''audio/mpeg'' True \<in> set (fst (step6_upload env opts p))"
  by (auto simp add: step6_upload_def act_simps Let_def split: option.splits sum.splits if_splits)

lemma pipeline_success:
  assumes "snd (pipeline env opts t) = Inr key"
  shows "key = ''processed/'' @ sessionId opts @ ''.mp3''"
    and "Upload key ''audio/mpeg'' True \<in> set (fst (pipeline env opts t))"
    and "world_after w (fst (pipeline env opts t)) =
      w \<lparr> purchases := (purchases w)(purchaseId opts := (purchases w (purchaseId opts))
             \<lparr> processing_step := Some uploading, processing_status := Some completed,
               final_audio_url := Some key \<rparr>),
          dirs := insert t (dirs w) \<rparr>"
  using assms
  by (auto simp add: pipeline_def act_simps world_after_stage
      split: option.splits sum.splits if_splits dest: step6_result)


text \<open>
  C5, amended. Whenever an invocation returns, the returned key is
  \<^verbatim>\<open>processed/{sessionId}.mp3\<close>; the status record is left completed with that key as
  the final reference, its step is uploading and its error message is what it was before
  the invocation (none, if there was none); the upload was made under that key with
  \<^verbatim>\<open>upsert: true\<close>; and any other returning invocation for the same session returns the
  same key.
\<close>

theorem C5_success_records_completed_key:
  assumes "snd (processRecording env opts) = Inr key"
    and "snd (processRecording env' opts') = Inr key'"
    and "sessionId opts' = sessionId opts"
  shows "key = ''processed/'' @ sessionId opts @ ''.mp3''
    \<and> purchases (world_after w (fst (processRecording env opts))) (purchaseId opts) =
        (purchases w (purchaseId opts))
          \<lparr> processing_step := Some uploading, processing_status := Some completed,
            final_audio_url := Some key \<rparr>
    \<and> error_message (purchases (world_after w (fst (processRecording env opts))) (purchaseId opts))
        = error_message (purchases w (purchaseId opts))
    \<and> Upload key ''audio/mpeg'' True \<in> set (fst (processRecording env opts))
    \<and> key' = key"
proof -
  from assms(1) have ok: "snd (pipeline env opts (tmpDir_of opts)) = Inr key"
    by (simp add: snd_processRecording)
  from assms(2) have ok': "snd (pipeline env' opts' (tmpDir_of opts')) = Inr key'"
    by (simp add: snd_processRecording)
  have tr: "fst (processRecording env opts) =
      fst (pipeline env opts (tmpDir_of opts)) @
      [RmSync (tmpDir_of opts) (rmSync_result env = None)]"
    by (simp add: fst_processRecording ok)
  have key: "key = ''processed/'' @ sessionId opts @ ''.mp3''"
    by (rule pipeline_success(1) [OF ok])
  have again: "key' = key"
    using pipeline_success(1) [OF ok'] key assms(3) by simp
  have row: "purchases (world_after w (fst (processRecording env opts))) (purchaseId opts) =
        (purchases w (purchaseId opts))
          \<lparr> processing_step := Some uploading, processing_status := Some completed,
            final_audio_url := Some key \<rparr>"
    unfolding tr by (simp add: pipeline_success(3) [OF ok])
  have err: "error_message
        (purchases (world_after w (fst (processRecording env opts))) (purchaseId opts))
        = error_message (purchases w (purchaseId opts))"
    unfolding row by simp
  have up: "Upload key ''audio/mpeg'' True \<in> set (fst (processRecording env opts))"
    unfolding tr using pipeline_success(2) [OF ok] by simp
  from key row err up again show ?thesis by blast
qed

text \<open>
  C5, as stated, fails: an invocation whose page download fails writes its message to
  the status record; a second invocation for the same purchase that succeeds leaves the
  record completed with the key and with the error message of the first still set.
\<close>

theorem C5_counterexample_stale_error_message:
  "snd (processRecording env_page_fetch_fails opts_plain) = Inl (JsError ''Failed to download page 0'')
   \<and> snd (processRecording env_ok opts_plain) = Inr ''processed/s1.mp3''
   \<and> purchases (world_after
        (world_after world0 (fst (processRecording env_page_fetch_fails opts_plain)))
        (fst (processRecording env_ok opts_plain))) ''p1'' =
      \<lparr> processing_step = Some uploading, processing_status = Some completed,
        error_message = Some ''Failed to download page 0'',
        final_audio_url = Some ''processed/s1.mp3'' \<rparr>"
  by (simp add: eval_simps sample_defs message_of_def)

theorem C5_success_records_completed_key_witness:
  "snd (processRecording env_ok opts_plain) = Inr ''processed/s1.mp3''
   \<and> sessionId opts_music = sessionId opts_plain
   \<and> snd (processRecording env_music_404 opts_music) = Inr ''processed/s1.mp3''
   \<and> purchases (world_after world0 (fst (processRecording env_ok opts_plain))) ''p1'' =
      \<lparr> processing_step = Some uploading, processing_status = Some completed,
        error_message = None, final_audio_url = Some ''processed/s1.mp3'' \<rparr>
   \<and> Upload ''processed/s1.mp3'' ''audio/mpeg'' True \<in> set (fst (processRecording env_ok opts_plain))"
proof -
  have first: "snd (processRecording env_ok opts_plain) = Inr ''processed/s1.mp3''"
    by (simp add: eval_simps sample_defs)
  have same: "sessionId opts_music = sessionId opts_plain"
    by (simp add: sample_defs)
  have second: "snd (processRecording env_music_404 opts_music) = Inr ''processed/s1.mp3''"
    by (simp add: eval_simps sample_defs)
  have "purchases (world_after world0 (fst (processRecording env_ok opts_plain))) ''p1'' =
      \<lparr> processing_step = Some uploading, processing_status = Some completed,
        error_message = None, final_audio_url = Some ''processed/s1.mp3'' \<rparr>
    \<and> Upload ''processed/s1.mp3'' ''audio/mpeg'' True
        \<in> set (fst (processRecording env_ok opts_plain))"
    using C5_success_records_completed_key [OF first second same, of world0]
    by (simp add: opts_plain_def world0_def fresh_purchase_def)
  with first same second show ?thesis by blast
qed

section \<open>The concat list\<close>











lemma not_in_ops: "ops_of s es \<Longrightarrow> op_stage e \<noteq> Some s \<Longrightarrow> e \<notin> set es"
  by (auto simp add: ops_of_def list_all_iff)

lemmas not_in_stage =
  not_in_ops [OF step1_ops] not_in_ops [OF step2_ops] not_in_ops [OF step3_ops]
  not_in_ops [OF step4_ops] not_in_ops [OF step5_ops] not_in_ops [OF step6_ops]





section \<open>Background music\<close>

lemma step3_result:
  "snd (step3_polish env t c) = Inr p \<Longrightarrow> p = path_join t ''polished.wav''"
  by (auto simp add: step3_polish_def act_simps Let_def split: option.splits sum.splits if_splits)

lemma step4_mix_call:
  "RunFfmpeg Mix command \<in> set (fst (step4_mix env opts t p)) \<Longrightarrow>
   music_fetched env \<and> Ffprobe p \<in> set (fst (step4_mix env opts t p)) \<and>
   command = mix_command (number_toString env) p (path_join t ''music.mp3'')
     (voiceDuration_of env) (path_join t ''mixed.wav'')"
  by (auto simp add: step4_mix_def act_simps Let_def music_fetched_def voiceDuration_of_def
      split: option.splits sum.splits if_splits)

lemma pipeline_mix_call:
  "RunFfmpeg Mix command \<in> set (fst (pipeline env opts t)) \<Longrightarrow>
   truthy (musicTrack opts) \<and> music_fetched env \<and>
   Ffprobe (path_join t ''polished.wav'') \<in> set (fst (pipeline env opts t)) \<and>
   command = mix_command (number_toString env) (path_join t ''polished.wav'')
     (path_join t ''music.mp3'') (voiceDuration_of env) (path_join t ''mixed.wav'')"
  by (simp add: pipeline_def act_simps not_in_stage split: option.splits sum.splits if_splits)
     (auto dest: step3_result step4_mix_call)


lemma render_mix_graph_of:
  "render_graph toString (mix_graph_of d) = [music_filter toString d, amix_filter]"
  by (simp add: render_graph_def mix_graph_of_def music_filter_def amix_filter_def)

lemma mixed_length_first:
  "mixed_length (mix_graph_of d) voice music = voice"
  by (simp add: mixed_length_def mix_graph_of_def)

lemma music_chain_length:
  "0 < m \<Longrightarrow> chain_length (music_chain (mix_graph_of d)) (Seconds m) = Seconds d"
  by (simp add: chain_length_def mix_graph_of_def)

lemma step4_mixed:
  "music_fetched env \<Longrightarrow> snd (step4_mix env opts t p) = Inr x \<Longrightarrow>
   x = path_join t ''mixed.wav'' \<and>
   RunFfmpeg Mix (mix_command (number_toString env) p (path_join t ''music.mp3'')
     (voiceDuration_of env) (path_join t ''mixed.wav'')) \<in> set (fst (step4_mix env opts t p))"
  by (auto simp add: step4_mix_def act_simps Let_def music_fetched_def voiceDuration_of_def
      split: option.splits sum.splits if_splits)

lemma step5_trace:
  "fst (step5_encode env opts t i) =
     [RunFfmpeg Encode (encode_command opts i (path_join t ''output.mp3''))]"
  by (simp add: step5_encode_def act_simps Let_def split: option.splits)

lemma pipeline_mixes:
  "truthy (musicTrack opts) \<Longrightarrow> music_fetched env \<Longrightarrow>
   encoding \<in> set (steps_of (fst (pipeline env opts t))) \<Longrightarrow>
   RunFfmpeg Mix (mix_command (number_toString env) (path_join t ''polished.wav'')
       (path_join t ''music.mp3'') (voiceDuration_of env) (path_join t ''mixed.wav''))
     \<in> set (fst (pipeline env opts t))
   \<and> RunFfmpeg Encode (encode_command opts (path_join t ''mixed.wav'')
       (path_join t ''output.mp3'')) \<in> set (fst (pipeline env opts t))"
  by (auto simp add: pipeline_def act_simps steps_of_append steps_of_stage step5_trace
      split: option.splits sum.splits if_splits dest: step3_result step4_mixed)

text \<open>
  C7. The mixing command is run only when a music track was given and its fetch answered
  with a success status, after probing the polished track; and whenever a track is given,
  its fetch answers with a success status and the invocation gets as far as the encoding
  step, the mixing command has been run and the encode reads the mixed file. With \<open>d\<close>
  the probed duration, the command has the polished track as first input and the music
  as second; the text of its graph is the rendering of \<open>mix_graph_of d\<close>: the music is
  looped, trimmed to \<open>d\<close>, faded in from 0 over 3 seconds, faded out over 5 seconds from
  \<open>max 0 (d - 5)\<close> (which is 0 for \<open>d = 3\<close>), set to volume 0.1, and mixed with the
  duration of the first input. By the lengths the spec gives for these filters, the mixed
  output of a voice track of length \<open>d\<close> has length \<open>d\<close> whatever the length of the music,
  and a non-empty music track is cut to \<open>d\<close>.
\<close>

theorem C7_music_filter_graph:
  "(RunFfmpeg Mix command \<in> set (fst (processRecording env opts)) \<longrightarrow>
      truthy (musicTrack opts) \<and> music_fetched env
      \<and> Ffprobe (path_join (tmpDir_of opts) ''polished.wav'')
          \<in> set (fst (processRecording env opts))
      \<and> command = mix_command (number_toString env)
            (path_join (tmpDir_of opts) ''polished.wav'')
            (path_join (tmpDir_of opts) ''music.mp3'') (voiceDuration_of env)
            (path_join (tmpDir_of opts) ''mixed.wav''))
   \<and> (truthy (musicTrack opts) \<and> music_fetched env
      \<and> encoding \<in> set (steps_of (fst (processRecording env opts))) \<longrightarrow>
      RunFfmpeg Mix (mix_command (number_toString env)
            (path_join (tmpDir_of opts) ''polished.wav'')
            (path_join (tmpDir_of opts) ''music.mp3'') (voiceDuration_of env)
            (path_join (tmpDir_of opts) ''mixed.wav''))
          \<in> set (fst (processRecording env opts))
      \<and> RunFfmpeg Encode (encode_command opts (path_join (tmpDir_of opts) ''mixed.wav'')
            (path_join (tmpDir_of opts) ''output.mp3''))
          \<in> set (fst (processRecording env opts)))
   \<and> cmd_inputs (mix_command toString polishedPath musicPath d mixedPath) =
        [polishedPath, musicPath]
   \<and> cmd_complexFilter (mix_command toString polishedPath musicPath d mixedPath) =
        [''[1:a]aloop=loop=-1:size=2e+09,atrim=duration='' @ toString d @
         '',afade=t=in:st=0:d=3,afade=t=out:st='' @ toString (max 0 (d - 5)) @
         '':d=5,volume=0.1[music]'',
         ''[0:a][music]amix=inputs=2:duration=first:dropout_transition=2[out]'']
   \<and> cmd_complexFilter (mix_command toString polishedPath musicPath d mixedPath) =
        render_graph toString (mix_graph_of d)
   \<and> mix_graph_of d = \<lparr>
        music_chain = [Aloop, Atrim d, Afade FadeIn (Lit ''0'') (Lit ''3''),
          Afade FadeOut (Num (max 0 (d - 5))) (Lit ''5''), Volume (Lit ''0.1'')],
        mix_policy = First \<rparr>
   \<and> fadeOutStart d = max 0 (d - 5)
   \<and> fadeOutStart 3 = 0
   \<and> mixed_length (mix_graph_of d) (Seconds d) musicLength = Seconds d
   \<and> (0 < m \<longrightarrow> chain_length (music_chain (mix_graph_of d)) (Seconds m) = Seconds d)"
proof -
  let ?tr = "fst (processRecording env opts)"
  let ?t = "tmpDir_of opts"
  let ?mix = "mix_command (number_toString env) (path_join ?t ''polished.wav'')
      (path_join ?t ''music.mp3'') (voiceDuration_of env) (path_join ?t ''mixed.wav'')"
  have bwd: "truthy (musicTrack opts) \<and> music_fetched env
      \<and> Ffprobe (path_join ?t ''polished.wav'') \<in> set ?tr \<and> command = ?mix"
    if "RunFfmpeg Mix command \<in> set ?tr"
  proof -
    from that have "RunFfmpeg Mix command \<in> set (fst (pipeline env opts ?t))"
      by (auto simp add: fst_processRecording split: sum.splits)
    from pipeline_mix_call [OF this] show ?thesis
      by (simp add: fst_processRecording)
  qed
  have fwd: "RunFfmpeg Mix ?mix \<in> set ?tr
      \<and> RunFfmpeg Encode (encode_command opts (path_join ?t ''mixed.wav'')
            (path_join ?t ''output.mp3'')) \<in> set ?tr"
    if "truthy (musicTrack opts)" and "music_fetched env" and "encoding \<in> set (steps_of ?tr)"
  proof -
    from that(3) have "encoding \<in> set (steps_of (fst (pipeline env opts ?t)))"
      by (simp add: steps_of_processRecording)
    from pipeline_mixes [OF that(1,2) this] show ?thesis
      by (simp add: fst_processRecording)
  qed
  have ins: "cmd_inputs (mix_command toString polishedPath musicPath d mixedPath) =
        [polishedPath, musicPath]"
    by (simp add: mix_command_def Ffmpeg_def)
  have strings: "cmd_complexFilter (mix_command toString polishedPath musicPath d mixedPath) =
        [''[1:a]aloop=loop=-1:size=2e+09,atrim=duration='' @ toString d @
         '',afade=t=in:st=0:d=3,afade=t=out:st='' @ toString (max 0 (d - 5)) @
         '':d=5,volume=0.1[music]'',
         ''[0:a][music]amix=inputs=2:duration=first:dropout_transition=2[out]'']"
    by (simp add: mix_command_def Ffmpeg_def music_filter_def amix_filter_def fadeOutStart_def)
  have rendered: "cmd_complexFilter (mix_command toString polishedPath musicPath d mixedPath) =
        render_graph toString (mix_graph_of d)"
    by (simp add: render_mix_graph_of mix_command_def Ffmpeg_def)
  have graph: "mix_graph_of d = \<lparr>
        music_chain = [Aloop, Atrim d, Afade FadeIn (Lit ''0'') (Lit ''3''),
          Afade FadeOut (Num (max 0 (d - 5))) (Lit ''5''), Volume (Lit ''0.1'')],
        mix_policy = First \<rparr>"
    by (simp add: mix_graph_of_def fadeOutStart_def)
  have start: "fadeOutStart d = max 0 (d - 5)" and short: "fadeOutStart 3 = 0"
    by (simp_all add: fadeOutStart_def)
  have out: "mixed_length (mix_graph_of d) (Seconds d) musicLength = Seconds d"
    by (rule mixed_length_first)
  have trimmed: "0 < m \<longrightarrow> chain_length (music_chain (mix_graph_of d)) (Seconds m) = Seconds d"
    by (simp add: music_chain_length)
  from bwd fwd ins strings rendered graph start short out trimmed show ?thesis
    by blast
qed


theorem C7_music_filter_graph_witness:
  "RunFfmpeg Mix (mix_command (number_toString env_ok) ''/tmp/s1/polished.wav''
       ''/tmp/s1/music.mp3'' 3 ''/tmp/s1/mixed.wav'')
     \<in> set (fst (processRecording env_ok opts_music))
   \<and> truthy (musicTrack opts_music) \<and> music_fetched env_ok
   \<and> encoding \<in> set (steps_of (fst (processRecording env_ok opts_music)))
   \<and> (0::real) < 200
   \<and> voiceDuration_of env_ok = 3
   \<and> RunFfmpeg Encode (encode_command opts_music ''/tmp/s1/mixed.wav'' ''/tmp/s1/output.mp3'')
     \<in> set (fst (processRecording env_ok opts_music))
   \<and> cmd_complexFilter (mix_command (number_toString env_ok) ''/tmp/s1/polished.wav''
       ''/tmp/s1/music.mp3'' 3 ''/tmp/s1/mixed.wav'') =
       [''[1:a]aloop=loop=-1:size=2e+09,atrim=duration=3,afade=t=in:st=0:d=3,afade=t=out:st=0:d=5,volume=0.1[music]'',
        ''[0:a][music]amix=inputs=2:duration=first:dropout_transition=2[out]'']
   \<and> mixed_length (mix_graph_of 3) (Seconds 3) (Seconds 200) = Seconds 3
   \<and> chain_length (music_chain (mix_graph_of 3)) (Seconds 200) = Seconds 3"
proof -
  have mem: "RunFfmpeg Mix (mix_command (number_toString env_ok) ''/tmp/s1/polished.wav''
       ''/tmp/s1/music.mp3'' 3 ''/tmp/s1/mixed.wav'')
     \<in> set (fst (processRecording env_ok opts_music))"
    by (simp add: eval_simps sample_defs)
  have given: "truthy (musicTrack opts_music)"
    by (simp add: opts_music_def)
  have fetched: "music_fetched env_ok"
    by (simp add: music_fetched_def env_ok_def)
  have reached: "encoding \<in> set (steps_of (fst (processRecording env_ok opts_music)))"
    by (simp add: eval_simps sample_defs)
  have long: "(0::real) < 200"
    by simp
  have d: "voiceDuration_of env_ok = 3"
    by (simp add: voiceDuration_of_def env_ok_def)
  have dir: "tmpDir_of opts_music = ''/tmp/s1''"
    by (simp add: tmpDir_of_def path_join_def opts_music_def)
  have s3: "number_toString env_ok 3 = ''3''" and s0: "number_toString env_ok 0 = ''0''"
    by (simp_all add: env_ok_def)
  note c = C7_music_filter_graph [where env = env_ok and opts = opts_music
      and toString = "number_toString env_ok" and d = 3 and m = 200
      and polishedPath = "''/tmp/s1/polished.wav''" and musicPath = "''/tmp/s1/music.mp3''"
      and mixedPath = "''/tmp/s1/mixed.wav''" and musicLength = "Seconds 200"]
  have enc: "RunFfmpeg Encode
       (encode_command opts_music ''/tmp/s1/mixed.wav'' ''/tmp/s1/output.mp3'')
     \<in> set (fst (processRecording env_ok opts_music))"
    using c [THEN conjunct2, THEN conjunct1] given fetched reached
    by (simp add: dir path_join_def)
  have strings: "cmd_complexFilter (mix_command (number_toString env_ok)
       ''/tmp/s1/polished.wav'' ''/tmp/s1/music.mp3'' 3 ''/tmp/s1/mixed.wav'') =
       [''[1:a]aloop=loop=-1:size=2e+09,atrim=duration=3,afade=t=in:st=0:d=3,afade=t=out:st=0:d=5,volume=0.1[music]'',
        ''[0:a][music]amix=inputs=2:duration=first:dropout_transition=2[out]'']"
    using c [THEN conjunct2, THEN conjunct2, THEN conjunct2, THEN conjunct1]
    by (simp add: s3 s0)
  have len: "mixed_length (mix_graph_of 3) (Seconds 3) (Seconds 200) = Seconds 3"
    and trimmed: "chain_length (music_chain (mix_graph_of 3)) (Seconds 200) = Seconds 3"
    using c long by blast+
  from mem given fetched reached long d enc strings len trimmed show ?thesis
    by blast
qed

lemma step4_fetch_rejected:
  "fetch_music_result env = Inl e \<Longrightarrow> snd (step4_mix env opts t p) = Inl e"
  by (simp add: step4_mix_def act_simps Let_def)

lemma step4_fetch_http_error:
  "fetch_music_result env = Inr r \<Longrightarrow> \<not> ok r \<Longrightarrow> snd (step4_mix env opts t p) = Inr p"
  by (simp add: step4_mix_def act_simps Let_def)

text \<open>
  C3. A music fetch that answers with an HTTP error status is skipped over
  (\<open>step4_fetch_http_error\<close>), but a fetch that rejects is thrown on
  (\<open>step4_fetch_rejected\<close>): with every other collaborator succeeding and the music
  fetch rejecting with ``fetch failed'', the invocation throws that error, the status
  record is left failed with that message at step mixing_music, and no encode is run.
\<close>

theorem C3_rejected_music_fetch_fails_invocation:
  "snd (processRecording env_music_unreachable opts_music) = Inl (JsError ''fetch failed'')
   \<and> purchases (world_after world0
        (fst (processRecording env_music_unreachable opts_music))) ''p1'' =
      \<lparr> processing_step = Some mixing_music, processing_status = Some failed,
        error_message = Some ''fetch failed'', final_audio_url = None \<rparr>
   \<and> filter is_transcode (drop 18 (fst (processRecording env_music_unreachable opts_music))) = []"
  by (simp add: eval_simps sample_defs message_of_def)

end
